theory Spec2Isabelle
  imports Complex_Main
begin

section \<open>JavaScript numbers\<close>

text \<open>
  The values of room.js are JavaScript numbers. They are modelled with their three
  non-finite values written out, so that every division by zero, every logarithm or
  square root outside its domain and every read of a missing array element is a branch
  of the model. Rounding and the sign of zero are not modelled (a zero divisor counts as
  positive), and a store into a Float32Array keeps the value as it is. Sums and quotients
  of finite numbers are exact. Products of finite numbers are exact inside the range of
  doubles and leave it as doubles do: the guard of \<open>computeRT60Secs\<close> turns on whether
  a product of three dimensions is NaN, and a product that has overflowed to an infinity
  or underflowed to zero decides that.
\<close>

datatype number = Fin real | PInf | NInf | NaN

fun js_neg :: "number \<Rightarrow> number" where
  "js_neg (Fin a) = Fin (- a)"
| "js_neg PInf = NInf"
| "js_neg NInf = PInf"
| "js_neg NaN = NaN"

fun js_add :: "number \<Rightarrow> number \<Rightarrow> number" where
  "js_add NaN _ = NaN"
| "js_add _ NaN = NaN"
| "js_add (Fin a) (Fin b) = Fin (a + b)"
| "js_add PInf NInf = NaN"
| "js_add NInf PInf = NaN"
| "js_add PInf _ = PInf"
| "js_add NInf _ = NInf"
| "js_add (Fin a) PInf = PInf"
| "js_add (Fin a) NInf = NInf"

definition js_sub :: "number \<Rightarrow> number \<Rightarrow> number" where
  "js_sub x y = js_add x (js_neg y)"

text \<open>The sign of a number that is not NaN: the infinity a product or quotient overflows to.\<close>

fun signed_inf :: "bool \<Rightarrow> number" where
  "signed_inf True = PInf"
| "signed_inf False = NInf"

text \<open>
  A real number as the double nearest to it falls: at or beyond \<open>2^1024 - 2^970\<close>, half
  a step above the largest double, rounding gives an infinity; at or below \<open>2^-1075\<close>,
  half the smallest double, it gives zero; in between the number is kept as it is.
\<close>

definition overflowThreshold :: real where
  "overflowThreshold = 2 ^ 1024 - 2 ^ 970"

definition underflowThreshold :: real where
  "underflowThreshold = 1 / 2 ^ 1075"

definition ranged :: "real \<Rightarrow> number" where
  "ranged x =
     (if overflowThreshold \<le> \<bar>x\<bar> then signed_inf (0 < x)
      else if \<bar>x\<bar> \<le> underflowThreshold then Fin 0
      else Fin x)"

fun js_mul :: "number \<Rightarrow> number \<Rightarrow> number" where
  "js_mul NaN _ = NaN"
| "js_mul _ NaN = NaN"
| "js_mul (Fin a) (Fin b) = ranged (a * b)"
| "js_mul (Fin a) PInf = (if a = 0 then NaN else signed_inf (0 < a))"
| "js_mul (Fin a) NInf = (if a = 0 then NaN else signed_inf (a < 0))"
| "js_mul PInf (Fin b) = (if b = 0 then NaN else signed_inf (0 < b))"
| "js_mul NInf (Fin b) = (if b = 0 then NaN else signed_inf (b < 0))"
| "js_mul PInf PInf = PInf"
| "js_mul NInf NInf = PInf"
| "js_mul PInf NInf = NInf"
| "js_mul NInf PInf = NInf"

fun js_div :: "number \<Rightarrow> number \<Rightarrow> number" where
  "js_div NaN _ = NaN"
| "js_div _ NaN = NaN"
| "js_div (Fin a) (Fin b) =
     (if b = 0 then (if a = 0 then NaN else signed_inf (0 < a)) else Fin (a / b))"
| "js_div (Fin a) PInf = Fin 0"
| "js_div (Fin a) NInf = Fin 0"
| "js_div PInf (Fin b) = signed_inf (0 \<le> b)"
| "js_div NInf (Fin b) = signed_inf (b < 0)"
| "js_div PInf PInf = NaN"
| "js_div PInf NInf = NaN"
| "js_div NInf PInf = NaN"
| "js_div NInf NInf = NaN"

fun js_lt :: "number \<Rightarrow> number \<Rightarrow> bool" where
  "js_lt NaN _ = False"
| "js_lt _ NaN = False"
| "js_lt (Fin a) (Fin b) = (a < b)"
| "js_lt _ NInf = False"
| "js_lt NInf _ = True"
| "js_lt PInf _ = False"
| "js_lt (Fin a) PInf = True"

fun js_le :: "number \<Rightarrow> number \<Rightarrow> bool" where
  "js_le NaN _ = False"
| "js_le _ NaN = False"
| "js_le (Fin a) (Fin b) = (a \<le> b)"
| "js_le NInf _ = True"
| "js_le _ PInf = True"
| "js_le PInf _ = False"
| "js_le (Fin a) NInf = False"

fun Math_log :: "number \<Rightarrow> number" where
  "Math_log (Fin a) = (if a < 0 then NaN else if a = 0 then NInf else Fin (ln a))"
| "Math_log PInf = PInf"
| "Math_log NInf = NaN"
| "Math_log NaN = NaN"



section \<open>Constants of room.js\<close>

definition MinVolume :: number where
  "MinVolume = Fin (1 / 10000)"

definition AirAbsorbtionCoefficients :: "number list" where
  "AirAbsorbtionCoefficients = map Fin
     [6 / 10000, 6 / 10000, 7 / 10000, 8 / 10000, 10 / 10000, 15 / 10000, 26 / 10000,
      60 / 10000, 207 / 10000]"

definition WallTypes :: "string list" where
  "WallTypes = [''left'', ''right'', ''front'', ''back'', ''ceiling'', ''floor'']"

definition DimensionTypes :: "string list" where
  "DimensionTypes = [''width'', ''height'', ''depth'']"

definition DefaultDimensions :: "string \<rightharpoonup> number" where
  "DefaultDimensions = map_of [(''width'', Fin 0), (''height'', Fin 0), (''depth'', Fin 0)]"

definition DefaultMaterials :: "string \<rightharpoonup> string" where
  "DefaultMaterials = map_of
     [(''left'', ''Transparent''), (''right'', ''Transparent''), (''front'', ''Transparent''),
      (''back'', ''Transparent''), (''floor'', ''Transparent''), (''ceiling'', ''Transparent'')]"

text \<open>The material table, in thousandths as the source writes it.\<close>

definition MaterialTable :: "(string \<times> real list) list" where
  "MaterialTable =
    [(''Transparent'', [1, 1, 1, 1, 1, 1, 1, 1, 1]),
     (''AcousticCeilingTiles'',
        [672 / 1000, 675 / 1000, 700 / 1000, 660 / 1000, 720 / 1000, 920 / 1000, 880 / 1000,
         750 / 1000, 1]),
     (''BrickBare'',
        [30 / 1000, 30 / 1000, 30 / 1000, 30 / 1000, 30 / 1000, 40 / 1000, 50 / 1000,
         70 / 1000, 140 / 1000]),
     (''BrickPainted'',
        [6 / 1000, 7 / 1000, 10 / 1000, 10 / 1000, 20 / 1000, 20 / 1000, 20 / 1000,
         30 / 1000, 60 / 1000]),
     (''ConcreteBlockCoarse'',
        [360 / 1000, 360 / 1000, 360 / 1000, 440 / 1000, 310 / 1000, 290 / 1000, 390 / 1000,
         250 / 1000, 500 / 1000]),
     (''ConcreteBlockPainted'',
        [92 / 1000, 90 / 1000, 100 / 1000, 50 / 1000, 60 / 1000, 70 / 1000, 90 / 1000,
         80 / 1000, 160 / 1000]),
     (''CurtainHeavy'',
        [73 / 1000, 106 / 1000, 140 / 1000, 350 / 1000, 550 / 1000, 720 / 1000, 700 / 1000,
         650 / 1000, 1]),
     (''FiberGlassInsulation'',
        [193 / 1000, 220 / 1000, 220 / 1000, 820 / 1000, 990 / 1000, 990 / 1000, 990 / 1000,
         990 / 1000, 1]),
     (''GlassThin'',
        [180 / 1000, 169 / 1000, 180 / 1000, 60 / 1000, 40 / 1000, 30 / 1000, 20 / 1000,
         20 / 1000, 40 / 1000]),
     (''GlassThick'',
        [350 / 1000, 350 / 1000, 350 / 1000, 250 / 1000, 180 / 1000, 120 / 1000, 70 / 1000,
         40 / 1000, 80 / 1000]),
     (''Grass'',
        [50 / 1000, 50 / 1000, 150 / 1000, 250 / 1000, 400 / 1000, 550 / 1000, 600 / 1000,
         600 / 1000, 600 / 1000]),
     (''LinoleumOnConcrete'',
        [20 / 1000, 20 / 1000, 20 / 1000, 30 / 1000, 30 / 1000, 30 / 1000, 30 / 1000,
         20 / 1000, 40 / 1000]),
     (''Marble'',
        [10 / 1000, 10 / 1000, 10 / 1000, 10 / 1000, 10 / 1000, 10 / 1000, 20 / 1000,
         20 / 1000, 40 / 1000]),
     (''Metal'',
        [30 / 1000, 35 / 1000, 40 / 1000, 40 / 1000, 50 / 1000, 50 / 1000, 50 / 1000,
         70 / 1000, 90 / 1000]),
     (''ParquetOnConcrete'',
        [28 / 1000, 30 / 1000, 40 / 1000, 40 / 1000, 70 / 1000, 60 / 1000, 60 / 1000,
         70 / 1000, 140 / 1000]),
     (''PlasterRough'',
        [17 / 1000, 18 / 1000, 20 / 1000, 30 / 1000, 40 / 1000, 50 / 1000, 40 / 1000,
         30 / 1000, 60 / 1000]),
     (''PlasterSmooth'',
        [11 / 1000, 12 / 1000, 13 / 1000, 15 / 1000, 20 / 1000, 30 / 1000, 40 / 1000,
         50 / 1000, 100 / 1000]),
     (''PlywoodPanel'',
        [400 / 1000, 340 / 1000, 280 / 1000, 220 / 1000, 170 / 1000, 90 / 1000, 100 / 1000,
         110 / 1000, 220 / 1000]),
     (''PolishedConcreteOrTile'',
        [8 / 1000, 8 / 1000, 10 / 1000, 10 / 1000, 15 / 1000, 20 / 1000, 20 / 1000,
         20 / 1000, 40 / 1000]),
     (''Sheetrock'',
        [290 / 1000, 279 / 1000, 290 / 1000, 100 / 1000, 50 / 1000, 40 / 1000, 70 / 1000,
         90 / 1000, 180 / 1000]),
     (''WaterOrIceSurface'',
        [6 / 1000, 6 / 1000, 8 / 1000, 8 / 1000, 13 / 1000, 15 / 1000, 20 / 1000,
         25 / 1000, 50 / 1000]),
     (''WoodCeiling'',
        [150 / 1000, 147 / 1000, 150 / 1000, 110 / 1000, 100 / 1000, 70 / 1000, 60 / 1000,
         70 / 1000, 140 / 1000]),
     (''WoodPanel'',
        [280 / 1000, 280 / 1000, 280 / 1000, 220 / 1000, 170 / 1000, 90 / 1000, 100 / 1000,
         110 / 1000, 220 / 1000]),
     (''Uniform'',
        [500 / 1000, 500 / 1000, 500 / 1000, 500 / 1000, 500 / 1000, 500 / 1000, 500 / 1000,
         500 / 1000, 500 / 1000])]"

text \<open>
  A property of \<open>Room.MaterialCoefficients\<close> is either one of the table's own vectors or
  a member inherited from \<open>Object.prototype\<close>: the table is an object literal, and both
  the \<open>in\<close> operator and a property read walk the prototype chain.
\<close>

datatype coefficients = Bands "number list" | Inherited string

definition ObjectPrototypeKeys :: "string list" where
  "ObjectPrototypeKeys =
     [''constructor'', ''hasOwnProperty'', ''isPrototypeOf'', ''propertyIsEnumerable'',
      ''toLocaleString'', ''toString'', ''valueOf'', ''__proto__'', ''__defineGetter__'',
      ''__defineSetter__'', ''__lookupGetter__'', ''__lookupSetter__'']"

definition MaterialLibrary :: "string \<rightharpoonup> coefficients" where
  "MaterialLibrary name = map_option (\<lambda>v. Bands (map Fin v)) (map_of MaterialTable name)"

text \<open>
  \<open>Room.MaterialCoefficients[name]\<close>; \<open>None\<close> is \<open>undefined\<close>, and
  \<open>name in Room.MaterialCoefficients\<close> holds exactly when the read is not \<open>None\<close>.
\<close>

definition MaterialCoefficients :: "string \<rightharpoonup> coefficients" where
  "MaterialCoefficients name =
     (case MaterialLibrary name of
        Some v \<Rightarrow> Some v
      | None \<Rightarrow> if name \<in> set ObjectPrototypeKeys then Some (Inherited name) else None)"

type_synonym materials = "string \<rightharpoonup> string"
type_synonym coefficientSet = "string \<rightharpoonup> coefficients"
type_synonym dimensions = "string \<rightharpoonup> number"

text \<open>
  \<open>Room.MaterialCoefficients[Room.DefaultMaterials[key]]\<close>, the value both
  initialisation loops store. For the six wall keys it is the Transparent vector.
\<close>

definition defaultCoefficients :: "string \<rightharpoonup> coefficients" where
  "defaultCoefficients key =
     (case DefaultMaterials key of None \<Rightarrow> None | Some d \<Rightarrow> MaterialCoefficients d)"


section \<open>Configuration taken from globals.js\<close>

text \<open>
  room.js reads five constants of globals.js. Every function that reads one takes the
  configuration as a parameter.
\<close>

record globals =
  NumReverbBands :: nat
  DefaultSpeedOfSound :: number
  TwentyFourLog10 :: number
  DefaultReflectionsNumAveragingBands :: nat
  DefaultReflectionsStartingBand :: nat

text \<open>
  Modelled from the spec: globals.js is not among the sources. The spec fixes nine reverb
  bands and the acoustic constant \<open>24 ln 10\<close>; it gives no value for the speed of sound
  or the averaging window, so this instance (343 m/s, three bands from band 4) only
  serves to evaluate the functions on examples.
\<close>

definition Globals :: globals where
  "Globals =
     \<lparr>NumReverbBands = 9, DefaultSpeedOfSound = Fin 343, TwentyFourLog10 = Fin (24 * ln 10),
      DefaultReflectionsNumAveragingBands = 3, DefaultReflectionsStartingBand = 4\<rparr>"


section \<open>The coefficient resolver\<close>

text \<open>\<open>Room.getCoefficientsFromMaterials\<close>, room.js lines 140 to 180.\<close>

definition quoted :: "string \<Rightarrow> string" where
  "quoted s = [CHR 0x22] @ s @ [CHR 0x22]"

text \<open>The two texts handed to \<open>Utils.log\<close>.\<close>

definition notFoundMessage :: "string \<Rightarrow> string \<Rightarrow> string" where
  "notFoundMessage name key =
     ''Material '' @ quoted name @ '' on Wall '' @ quoted key @ '' not found. Using '' @
     quoted (case DefaultMaterials key of Some d \<Rightarrow> d | None \<Rightarrow> ''undefined'') @ ''.''"

definition notDefinedMessage :: "string \<Rightarrow> string" where
  "notDefinedMessage key = ''Wall '' @ quoted key @ '' is not defined and will be ignored.''"

text \<open>
  First loop: every wall starts with its default material's vector. Storing \<open>None\<close>
  stands for storing \<open>undefined\<close>, which no wall key reaches.
\<close>

definition initCoefficients :: coefficientSet where
  "initCoefficients = fold (\<lambda>key c. c(key := defaultCoefficients key)) WallTypes Map.empty"

text \<open>
  Second loop: the value under \<open>walls\<close> is written over the four side walls of the
  object \<open>materials\<close> refers to. The wall keys and \<open>walls\<close> are not names of
  \<open>Object.prototype\<close>, so \<open>key in materials\<close> on a plain object asks for an own key.
\<close>

definition expandWalls :: "materials \<Rightarrow> materials" where
  "expandWalls m =
     (if m ''walls'' \<noteq> None
      then fold (\<lambda>key m. if key \<noteq> ''ceiling'' \<and> key \<noteq> ''floor''
                          then m(key := m ''walls'') else m) WallTypes m
      else m)"

text \<open>Third loop, one wall: the coefficient set and the texts logged so far are threaded.\<close>

definition assignWall ::
  "materials \<Rightarrow> string \<Rightarrow> coefficientSet \<times> string list \<Rightarrow> coefficientSet \<times> string list" where
  "assignWall m key st =
     (case m key of
        Some name \<Rightarrow>
          (case MaterialCoefficients name of
             Some v \<Rightarrow> ((fst st)(key \<mapsto> v), snd st)
           | None \<Rightarrow> (fst st, snd st @ [notFoundMessage name key]))
      | None \<Rightarrow> (fst st, snd st @ [notDefinedMessage key]))"

text \<open>
  What a call leaves behind: the coefficient set it returns, the object its variable
  \<open>materials\<close> refers to on return (the caller's object, or \<open>Room.DefaultMaterials\<close>
  when none was passed), and the texts it logged, in order.
\<close>

record resolved =
  coefficientsOf :: coefficientSet
  materialsAfter :: materials
  logged :: "string list"

definition getCoefficientsFromMaterials :: "materials option \<Rightarrow> resolved" where
  "getCoefficientsFromMaterials materials =
     (let m0 = (case materials of None \<Rightarrow> DefaultMaterials | Some m \<Rightarrow> m);
          m = expandWalls m0;
          st = fold (assignWall m) WallTypes (initCoefficients, [])
      in \<lparr>coefficientsOf = fst st, materialsAfter = m, logged = snd st\<rparr>)"


section \<open>The sanitizers\<close>

text \<open>
  \<open>Room.sanitizeCoefficients\<close> and \<open>Room.sanitizeDimensions\<close>, room.js lines 182 to 208.
  Both sanitizers fill the object they are given and return it; the result is that
  object's final state.
\<close>

definition sanitizeCoefficients :: "coefficientSet option \<Rightarrow> coefficientSet" where
  "sanitizeCoefficients coefficients =
     fold (\<lambda>key c. if c key = None then c(key := defaultCoefficients key) else c) WallTypes
       (case coefficients of None \<Rightarrow> Map.empty | Some c \<Rightarrow> c)"

definition sanitizeDimensions :: "dimensions option \<Rightarrow> dimensions" where
  "sanitizeDimensions dimensions =
     fold (\<lambda>key d. if d key = None then d(key := DefaultDimensions key) else d) DimensionTypes
       (case dimensions of None \<Rightarrow> Map.empty | Some d \<Rightarrow> d)"


section \<open>Reading numbers out of objects\<close>

text \<open>
  A read that finds nothing gives \<open>undefined\<close>, which arithmetic turns into NaN: an
  index past the end of a vector, any index of an inherited member, a missing key of a
  number map. After sanitizing, every wall key is present, so the first equation of
  \<open>bandAt\<close> is never reached by the two calculators.
\<close>

fun bandAt :: "coefficients option \<Rightarrow> nat \<Rightarrow> number" where
  "bandAt None i = NaN"
| "bandAt (Some (Bands xs)) i = (if i < length xs then xs ! i else NaN)"
| "bandAt (Some (Inherited name)) i = NaN"

definition numberAt :: "(string \<rightharpoonup> number) \<Rightarrow> string \<Rightarrow> number" where
  "numberAt m key = (case m key of Some v \<Rightarrow> v | None \<Rightarrow> NaN)"

definition airAbsorbtionAt :: "nat \<Rightarrow> number" where
  "airAbsorbtionAt i =
     (if i < length AirAbsorbtionCoefficients then AirAbsorbtionCoefficients ! i else NaN)"


section \<open>Reflection coefficients\<close>




section \<open>Reverberation times\<close>

text \<open>\<open>Room.computeRT60Secs\<close>, room.js lines 230 to 278.\<close>

definition roomVolume :: "dimensions \<Rightarrow> number" where
  "roomVolume d = js_mul (js_mul (numberAt d ''width'') (numberAt d ''height'')) (numberAt d ''depth'')"

text \<open>The body of the band loop: the value stored at index \<open>i\<close>.\<close>

definition RT60Band :: "dimensions \<Rightarrow> coefficientSet \<Rightarrow> number \<Rightarrow> nat \<Rightarrow> number" where
  "RT60Band d c k i =
     (let volume = roomVolume d;
          leftRightArea = js_mul (numberAt d ''width'') (numberAt d ''height'');
          floorCeilingArea = js_mul (numberAt d ''width'') (numberAt d ''depth'');
          frontBackArea = js_mul (numberAt d ''depth'') (numberAt d ''height'');
          totalArea = js_mul (Fin 2) (js_add (js_add leftRightArea floorCeilingArea) frontBackArea);
          absorbtionArea =
            js_add
              (js_add
                 (js_mul (js_add (bandAt (c ''left'') i) (bandAt (c ''right'') i)) leftRightArea)
                 (js_mul (js_add (bandAt (c ''floor'') i) (bandAt (c ''ceiling'') i))
                    floorCeilingArea))
              (js_mul (js_add (bandAt (c ''front'') i) (bandAt (c ''back'') i)) frontBackArea);
          meanAbsorbtionArea = js_div absorbtionArea totalArea;
          air = js_mul (js_mul (Fin 4) (airAbsorbtionAt i)) volume
      in if js_le meanAbsorbtionArea (Fin (1 / 2))
         then js_div (js_mul k volume) (js_add absorbtionArea air)
         else js_div (js_mul k volume)
                (js_add (js_mul (js_neg totalArea)
                           (Math_log (js_sub (Fin 1) meanAbsorbtionArea))) air))"

definition computeRT60Secs ::
  "globals \<Rightarrow> dimensions option \<Rightarrow> coefficientSet option \<Rightarrow> number option \<Rightarrow> number list" where
  "computeRT60Secs g dimensions coefficients speedOfSound =
     (let RT60Secs = replicate (NumReverbBands g) (Fin 0);
          d = sanitizeDimensions dimensions;
          c = sanitizeCoefficients coefficients;
          s = (case speedOfSound of None \<Rightarrow> DefaultSpeedOfSound g | Some v \<Rightarrow> v);
          k = js_div (TwentyFourLog10 g) s
      in if js_lt (roomVolume d) MinVolume then RT60Secs
         else fold (\<lambda>i a. a[i := RT60Band d c k i]) [0..<NumReverbBands g] RT60Secs)"


section \<open>The reverberation formulas as the specification words them\<close>

text \<open>
  The specification describes one band of the profile in steps: three pairwise wall areas,
  their doubled sum, the absorption area, the mean absorption, the acoustic constant and
  the two formulas. These definitions follow that wording; the theorems compare them with
  the loop of \<open>computeRT60Secs\<close>.
\<close>

definition spec_leftRight :: "dimensions \<Rightarrow> number" where
  "spec_leftRight d = js_mul (numberAt d ''width'') (numberAt d ''height'')"

definition spec_floorCeiling :: "dimensions \<Rightarrow> number" where
  "spec_floorCeiling d = js_mul (numberAt d ''width'') (numberAt d ''depth'')"

definition spec_frontBack :: "dimensions \<Rightarrow> number" where
  "spec_frontBack d = js_mul (numberAt d ''depth'') (numberAt d ''height'')"

definition spec_totalArea :: "dimensions \<Rightarrow> number" where
  "spec_totalArea d =
     js_mul (Fin 2) (js_add (js_add (spec_leftRight d) (spec_floorCeiling d)) (spec_frontBack d))"

definition spec_absorptionArea :: "dimensions \<Rightarrow> coefficientSet \<Rightarrow> nat \<Rightarrow> number" where
  "spec_absorptionArea d c i =
     js_add
       (js_add
          (js_mul (js_add (bandAt (c ''left'') i) (bandAt (c ''right'') i)) (spec_leftRight d))
          (js_mul (js_add (bandAt (c ''floor'') i) (bandAt (c ''ceiling'') i)) (spec_floorCeiling d)))
       (js_mul (js_add (bandAt (c ''front'') i) (bandAt (c ''back'') i)) (spec_frontBack d))"

definition spec_meanAbsorption :: "dimensions \<Rightarrow> coefficientSet \<Rightarrow> nat \<Rightarrow> number" where
  "spec_meanAbsorption d c i = js_div (spec_absorptionArea d c i) (spec_totalArea d)"

definition spec_k :: "number \<Rightarrow> number" where
  "spec_k speedOfSound = js_div (Fin (24 * ln 10)) speedOfSound"

definition spec_airTerm :: "dimensions \<Rightarrow> nat \<Rightarrow> number" where
  "spec_airTerm d i = js_mul (js_mul (Fin 4) (airAbsorbtionAt i)) (roomVolume d)"

definition spec_Sabine :: "dimensions \<Rightarrow> coefficientSet \<Rightarrow> number \<Rightarrow> nat \<Rightarrow> number" where
  "spec_Sabine d c speedOfSound i =
     js_div (js_mul (spec_k speedOfSound) (roomVolume d))
       (js_add (spec_absorptionArea d c i) (spec_airTerm d i))"

definition spec_Eyring :: "dimensions \<Rightarrow> coefficientSet \<Rightarrow> number \<Rightarrow> nat \<Rightarrow> number" where
  "spec_Eyring d c speedOfSound i =
     js_div (js_mul (spec_k speedOfSound) (roomVolume d))
       (js_add (js_mul (js_neg (spec_totalArea d))
                  (Math_log (js_sub (Fin 1) (spec_meanAbsorption d c i))))
          (spec_airTerm d i))"

text \<open>The texts one wall adds to the log, read off the third loop of the resolver.\<close>

definition wallMessages :: "materials \<Rightarrow> string \<Rightarrow> string list" where
  "wallMessages m key =
     (case m key of
        Some name \<Rightarrow>
          (case MaterialCoefficients name of
             Some v \<Rightarrow> []
           | None \<Rightarrow> [notFoundMessage name key])
      | None \<Rightarrow> [notDefinedMessage key])"


section \<open>Facts about the tables\<close>

lemma distinct_WallTypes: "distinct WallTypes"
  by (simp add: WallTypes_def)

lemma Transparent_own: "MaterialLibrary ''Transparent'' = Some (Bands (replicate 9 (Fin 1)))"
  by (simp add: MaterialLibrary_def MaterialTable_def numeral_eq_Suc)

lemma MaterialCoefficients_own:
  "MaterialLibrary name = Some v \<Longrightarrow> MaterialCoefficients name = Some v"
  by (simp add: MaterialCoefficients_def)

lemma MaterialLibrary_nine_bands:
  "MaterialLibrary name = Some v \<Longrightarrow> \<exists>xs. v = Bands xs \<and> length xs = 9"
  by (auto simp: MaterialLibrary_def MaterialTable_def split: if_splits)

lemma defaultCoefficients_wall:
  "key \<in> set WallTypes \<Longrightarrow> defaultCoefficients key = Some (Bands (replicate 9 (Fin 1)))"
  by (auto simp: WallTypes_def defaultCoefficients_def DefaultMaterials_def
      MaterialCoefficients_own Transparent_own)

lemma DefaultDimensions_axis:
  "key \<in> set DimensionTypes \<Longrightarrow> DefaultDimensions key = Some (Fin 0)"
  by (auto simp: DimensionTypes_def DefaultDimensions_def)


section \<open>The loops in closed form\<close>

lemma fold_fill:
  "fold (\<lambda>key c. if c key = None then c(key := f key) else c) ks c k =
     (case c k of Some v \<Rightarrow> Some v | None \<Rightarrow> if k \<in> set ks then f k else None)"
  by (induction ks arbitrary: c) (auto split: option.splits)

lemma sanitizeCoefficients_apply:
  "sanitizeCoefficients cs k =
     (case (case cs of None \<Rightarrow> Map.empty | Some c \<Rightarrow> c) k of
        Some v \<Rightarrow> Some v
      | None \<Rightarrow> if k \<in> set WallTypes then Some (Bands (replicate 9 (Fin 1))) else None)"
  by (simp add: sanitizeCoefficients_def fold_fill defaultCoefficients_wall split: option.splits)

lemma sanitizeDimensions_apply:
  "sanitizeDimensions ds k =
     (case (case ds of None \<Rightarrow> Map.empty | Some d \<Rightarrow> d) k of
        Some v \<Rightarrow> Some v
      | None \<Rightarrow> if k \<in> set DimensionTypes then Some (Fin 0) else None)"
  by (simp add: sanitizeDimensions_def fold_fill DefaultDimensions_axis split: option.splits)

lemma initCoefficients_apply:
  "initCoefficients k = (if k \<in> set WallTypes then Some (Bands (replicate 9 (Fin 1))) else None)"
proof -
  have "fold (\<lambda>key c. c(key := f key)) ks c k = (if k \<in> set ks then f k else c k)"
    for ks f and c :: coefficientSet
    by (induction ks arbitrary: c) auto
  then show ?thesis
    by (simp add: initCoefficients_def defaultCoefficients_wall)
qed

lemma expandWalls_eq:
  "expandWalls m =
     (case m ''walls'' of
        None \<Rightarrow> m
      | Some v \<Rightarrow> m(''left'' \<mapsto> v, ''right'' \<mapsto> v, ''front'' \<mapsto> v, ''back'' \<mapsto> v))"
  by (auto simp: expandWalls_def WallTypes_def split: option.splits)

lemma expandWalls_idem: "expandWalls (expandWalls m) = expandWalls m"
  by (auto simp: expandWalls_eq split: option.splits)

lemma fold_assignWall_fst:
  "distinct ks \<Longrightarrow>
     fst (fold (assignWall m) ks st) k =
       (if k \<in> set ks then
          (case m k of
             Some name \<Rightarrow>
               (case MaterialCoefficients name of Some v \<Rightarrow> Some v | None \<Rightarrow> fst st k)
           | None \<Rightarrow> fst st k)
        else fst st k)"
  by (induction ks arbitrary: st) (auto simp: assignWall_def split: option.splits)

lemma fold_assignWall_snd:
  "snd (fold (assignWall m) ks st) = snd st @ concat (map (wallMessages m) ks)"
  by (induction ks arbitrary: st) (auto simp: assignWall_def wallMessages_def split: option.splits)

lemma coefficientsOf_apply:
  "coefficientsOf (getCoefficientsFromMaterials materials) k =
     (if k \<in> set WallTypes then
        (case expandWalls (case materials of None \<Rightarrow> DefaultMaterials | Some m \<Rightarrow> m) k of
           Some name \<Rightarrow>
             (case MaterialCoefficients name of
                Some v \<Rightarrow> Some v
              | None \<Rightarrow> Some (Bands (replicate 9 (Fin 1))))
         | None \<Rightarrow> Some (Bands (replicate 9 (Fin 1))))
      else None)"
  by (simp add: getCoefficientsFromMaterials_def Let_def fold_assignWall_fst distinct_WallTypes
      initCoefficients_apply split: option.splits)

lemma materialsAfter_eq:
  "materialsAfter (getCoefficientsFromMaterials materials) =
     expandWalls (case materials of None \<Rightarrow> DefaultMaterials | Some m \<Rightarrow> m)"
  by (simp add: getCoefficientsFromMaterials_def Let_def)

lemma logged_eq:
  "logged (getCoefficientsFromMaterials materials) =
     concat (map (wallMessages
        (expandWalls (case materials of None \<Rightarrow> DefaultMaterials | Some m \<Rightarrow> m))) WallTypes)"
  by (simp add: getCoefficientsFromMaterials_def Let_def fold_assignWall_snd)

text \<open>
  Storing into a zero-filled array at the indices \<open>0, \<dots>, n - 1\<close> in turn builds the
  list of the stored values.
\<close>

lemma fold_store:
  "n \<le> length a \<Longrightarrow> fold (\<lambda>i a. a[i := f i]) [0..<n] a = map f [0..<n] @ drop n a"
proof (induction n)
  case 0
  then show ?case by simp
next
  case (Suc n)
  then have "fold (\<lambda>i a. a[i := f i]) [0..<Suc n] a = (map f [0..<n] @ drop n a)[n := f n]"
    by simp
  also have "\<dots> = map f [0..<n] @ (drop n a)[0 := f n]"
    by (simp add: list_update_append)
  also have "(drop n a)[0 := f n] = f n # drop (Suc n) a"
    using Suc.prems
    by (cases "drop n a") (auto simp: drop_Suc tl_drop drop_eq_Nil dest: arg_cong [where f = tl])
  finally show ?case by simp
qed

lemma computeRT60Secs_eq:
  "computeRT60Secs g dims cs s =
     (if js_lt (roomVolume (sanitizeDimensions dims)) MinVolume
      then replicate (NumReverbBands g) (Fin 0)
      else map (RT60Band (sanitizeDimensions dims) (sanitizeCoefficients cs)
                  (js_div (TwentyFourLog10 g)
                     (case s of None \<Rightarrow> DefaultSpeedOfSound g | Some v \<Rightarrow> v)))
             [0..<NumReverbBands g])"
  by (simp add: computeRT60Secs_def Let_def fold_store)

lemma js_le_not_lt: "js_le x y \<Longrightarrow> \<not> js_lt y x"
  by (cases x; cases y) auto

lemma RT60Band_spec:
  "RT60Band d c (spec_k speed) i =
     (if js_le (spec_meanAbsorption d c i) (Fin (1 / 2)) then spec_Sabine d c speed i
      else spec_Eyring d c speed i)"
  by (simp add: RT60Band_def Let_def spec_Sabine_def spec_Eyring_def spec_meanAbsorption_def
      spec_absorptionArea_def spec_totalArea_def spec_leftRight_def spec_floorCeiling_def
      spec_frontBack_def spec_airTerm_def)





section \<open>Products in the range of doubles\<close>

text \<open>
  Between \<open>10^-12\<close> and \<open>10^12\<close> in absolute value a product is kept as it is; this
  covers the rooms the examples use.
\<close>

lemma overflowThreshold_large: "10 ^ 12 < overflowThreshold"
  by (simp add: overflowThreshold_def)

lemma underflowThreshold_small: "underflowThreshold < 1 / 10 ^ 12"
  by (simp add: underflowThreshold_def)

lemma overflowThreshold_pos: "0 < overflowThreshold"
  using overflowThreshold_large by simp

lemma ranged_zero: "ranged 0 = Fin 0"
  using overflowThreshold_pos by (simp add: ranged_def underflowThreshold_def)

lemma ranged_mid: "1 / 10 ^ 12 \<le> \<bar>x\<bar> \<Longrightarrow> \<bar>x\<bar> \<le> 10 ^ 12 \<Longrightarrow> ranged x = Fin x"
  using overflowThreshold_large underflowThreshold_small by (simp add: ranged_def)

lemma ranged_not_NaN: "ranged x \<noteq> NaN"
  by (cases "0 < x") (simp_all add: ranged_def)

lemma ranged_nonpos: "x \<le> 0 \<Longrightarrow> js_le (ranged x) (Fin 0)"
  by (simp add: ranged_def)

lemma ranged_nonneg: "0 \<le> x \<Longrightarrow> js_le (Fin 0) (ranged x)"
  using overflowThreshold_pos by (cases "x = 0") (auto simp: ranged_def)

lemma ln10_bounds: "1 \<le> ln (10::real)" "ln (10::real) \<le> 9"
proof -
  have "exp (1::real) \<le> 10" using exp_le by simp
  then have "ln (exp (1::real)) \<le> ln 10" by (subst ln_le_cancel_iff) simp_all
  then show "1 \<le> ln (10::real)" by simp
  show "ln (10::real) \<le> 9" using ln_le_minus_one [of "10::real"] by simp
qed

text \<open>
  The sign of a product that is a number: rounding into the range of doubles keeps it, or
  gives zero.
\<close>

lemma js_mul_nonpos_nonneg:
  "js_le x (Fin 0) \<Longrightarrow> js_le (Fin 0) y \<Longrightarrow> js_mul x y \<noteq> NaN \<Longrightarrow> js_le (js_mul x y) (Fin 0)"
  by (cases x; cases y) (auto simp: ranged_nonpos mult_nonpos_nonneg split: if_splits)

lemma js_mul_nonneg_nonpos:
  "js_le (Fin 0) x \<Longrightarrow> js_le y (Fin 0) \<Longrightarrow> js_mul x y \<noteq> NaN \<Longrightarrow> js_le (js_mul x y) (Fin 0)"
  by (cases x; cases y) (auto simp: ranged_nonpos mult_nonneg_nonpos split: if_splits)

lemma js_mul_nonpos_nonpos:
  "js_le x (Fin 0) \<Longrightarrow> js_le y (Fin 0) \<Longrightarrow> js_mul x y \<noteq> NaN \<Longrightarrow> js_le (Fin 0) (js_mul x y)"
  by (cases x; cases y) (auto simp: ranged_nonneg mult_nonpos_nonpos split: if_splits)

lemma js_mul_nonneg_nonneg:
  "js_le (Fin 0) x \<Longrightarrow> js_le (Fin 0) y \<Longrightarrow> js_mul x y \<noteq> NaN \<Longrightarrow> js_le (Fin 0) (js_mul x y)"
  by (cases x; cases y) (auto simp: ranged_nonneg split: if_splits)

lemma js_mul_NaN_left: "js_mul NaN y = NaN"
  by simp

lemma js_mul_NaN_right: "js_mul x NaN = NaN"
  by (cases x) simp_all

lemma js_lt_nonpos: "js_lt x (Fin 0) \<Longrightarrow> js_le x (Fin 0)"
  by (cases x) auto

lemma not_js_lt_nonneg: "\<not> js_lt x (Fin 0) \<Longrightarrow> x \<noteq> NaN \<Longrightarrow> js_le (Fin 0) x"
  by (cases x) auto

lemma js_le_zero_below_MinVolume: "js_le x (Fin 0) \<Longrightarrow> js_lt x MinVolume"
  by (cases x) (auto simp: MinVolume_def)

lemma odd_negative_product:
  assumes odd: "odd (length (filter (\<lambda>x. js_lt x (Fin 0)) [x, y, z]))"
    and num: "js_mul (js_mul x y) z \<noteq> NaN"
  shows "js_le (js_mul (js_mul x y) z) (Fin 0)"
proof -
  have xy: "js_mul x y \<noteq> NaN" using num by auto
  have x: "x \<noteq> NaN" and y: "y \<noteq> NaN" using xy js_mul_NaN_right by auto
  have z: "z \<noteq> NaN" using num js_mul_NaN_right by auto
  have sx: "js_lt x (Fin 0) \<Longrightarrow> js_le x (Fin 0)" "\<not> js_lt x (Fin 0) \<Longrightarrow> js_le (Fin 0) x"
    using x by (auto intro: js_lt_nonpos not_js_lt_nonneg)
  have sy: "js_lt y (Fin 0) \<Longrightarrow> js_le y (Fin 0)" "\<not> js_lt y (Fin 0) \<Longrightarrow> js_le (Fin 0) y"
    using y by (auto intro: js_lt_nonpos not_js_lt_nonneg)
  have sz: "js_lt z (Fin 0) \<Longrightarrow> js_le z (Fin 0)" "\<not> js_lt z (Fin 0) \<Longrightarrow> js_le (Fin 0) z"
    using z by (auto intro: js_lt_nonpos not_js_lt_nonneg)
  consider (a) "js_lt x (Fin 0)" "\<not> js_lt y (Fin 0)" "\<not> js_lt z (Fin 0)"
    | (b) "\<not> js_lt x (Fin 0)" "js_lt y (Fin 0)" "\<not> js_lt z (Fin 0)"
    | (c) "\<not> js_lt x (Fin 0)" "\<not> js_lt y (Fin 0)" "js_lt z (Fin 0)"
    | (d) "js_lt x (Fin 0)" "js_lt y (Fin 0)" "js_lt z (Fin 0)"
    using odd by (auto split: if_splits)
  then show ?thesis
  proof cases
    case a
    have "js_le (js_mul x y) (Fin 0)"
      by (rule js_mul_nonpos_nonneg) (use a sx sy xy in auto)
    then show ?thesis
      by (rule js_mul_nonpos_nonneg) (use a sz num in auto)
  next
    case b
    have "js_le (js_mul x y) (Fin 0)"
      by (rule js_mul_nonneg_nonpos) (use b sx sy xy in auto)
    then show ?thesis
      by (rule js_mul_nonpos_nonneg) (use b sz num in auto)
  next
    case c
    have "js_le (Fin 0) (js_mul x y)"
      by (rule js_mul_nonneg_nonneg) (use c sx sy xy in auto)
    then show ?thesis
      by (rule js_mul_nonneg_nonpos) (use c sz num in auto)
  next
    case d
    have "js_le (Fin 0) (js_mul x y)"
      by (rule js_mul_nonpos_nonpos) (use d sx sy xy in auto)
    then show ?thesis
      by (rule js_mul_nonneg_nonpos) (use d sz num in auto)
  qed
qed

lemma RT60Band_NaN: "roomVolume d = NaN \<Longrightarrow> RT60Band d c k i = NaN"
  by (simp add: RT60Band_def Let_def js_mul_NaN_right)


section \<open>The resolver on names outside \<open>Object.prototype\<close>\<close>

text \<open>
  Whatever the assignment, the returned set has exactly the six wall keys. A wall whose
  (expanded) material name is not an inherited member name holds a vector of nine bands;
  an unknown such name keeps the default and is reported, and so is a missing wall.
\<close>

lemma getCoefficientsFromMaterials_dom:
  "dom (coefficientsOf (getCoefficientsFromMaterials materials)) = set WallTypes"
  by (auto simp: coefficientsOf_apply split: option.splits if_splits)

lemma getCoefficientsFromMaterials_nine_bands:
  assumes "key \<in> set WallTypes"
    and "\<And>name. expandWalls (case materials of None \<Rightarrow> DefaultMaterials | Some m \<Rightarrow> m) key
            = Some name \<Longrightarrow> name \<notin> set ObjectPrototypeKeys"
  shows "\<exists>xs. coefficientsOf (getCoefficientsFromMaterials materials) key = Some (Bands xs)
           \<and> length xs = 9"
proof (cases "expandWalls (case materials of None \<Rightarrow> DefaultMaterials | Some m \<Rightarrow> m) key")
  case None
  then show ?thesis using assms(1) by (simp add: coefficientsOf_apply)
next
  case (Some name)
  show ?thesis
  proof (cases "MaterialLibrary name")
    case None
    then have "MaterialCoefficients name = None"
      using assms(2) [OF Some] by (simp add: MaterialCoefficients_def)
    then show ?thesis using assms(1) Some by (simp add: coefficientsOf_apply)
  next
    case (Some v)
    then obtain xs where "v = Bands xs" and "length xs = 9"
      using MaterialLibrary_nine_bands by blast
    then show ?thesis
      using assms(1) \<open>expandWalls _ key = Some name\<close> Some
      by (simp add: coefficientsOf_apply MaterialCoefficients_own)
  qed
qed

lemma getCoefficientsFromMaterials_unknown_material:
  assumes "key \<in> set WallTypes" and "expandWalls m key = Some name"
    and "MaterialCoefficients name = None"
  shows "coefficientsOf (getCoefficientsFromMaterials (Some m)) key = defaultCoefficients key"
    and "notFoundMessage name key \<in> set (logged (getCoefficientsFromMaterials (Some m)))"
proof -
  show "coefficientsOf (getCoefficientsFromMaterials (Some m)) key = defaultCoefficients key"
    using assms by (simp add: coefficientsOf_apply defaultCoefficients_wall)
  have "notFoundMessage name key \<in> set (wallMessages (expandWalls m) key)"
    using assms(2,3) by (simp add: wallMessages_def)
  then show "notFoundMessage name key \<in> set (logged (getCoefficientsFromMaterials (Some m)))"
    using assms(1) by (auto simp: logged_eq)
qed

lemma getCoefficientsFromMaterials_missing_wall:
  assumes "key \<in> set WallTypes" and "expandWalls m key = None"
  shows "coefficientsOf (getCoefficientsFromMaterials (Some m)) key = defaultCoefficients key"
    and "notDefinedMessage key \<in> set (logged (getCoefficientsFromMaterials (Some m)))"
proof -
  show "coefficientsOf (getCoefficientsFromMaterials (Some m)) key = defaultCoefficients key"
    using assms by (simp add: coefficientsOf_apply defaultCoefficients_wall)
  have "notDefinedMessage key \<in> set (wallMessages (expandWalls m) key)"
    using assms(2) by (simp add: wallMessages_def)
  then show "notDefinedMessage key \<in> set (logged (getCoefficientsFromMaterials (Some m)))"
    using assms(1) by (auto simp: logged_eq)
qed

lemma getCoefficientsFromMaterials_absent:
  "coefficientsOf (getCoefficientsFromMaterials None) key =
     (if key \<in> set WallTypes then Some (Bands (replicate 9 (Fin 1))) else None)"
  and "logged (getCoefficientsFromMaterials None) = []"
  and "materialsAfter (getCoefficientsFromMaterials None) = DefaultMaterials"
  by (auto simp: coefficientsOf_apply logged_eq materialsAfter_eq expandWalls_eq wallMessages_def
      DefaultMaterials_def WallTypes_def MaterialCoefficients_own Transparent_own)


section \<open>The claims\<close>

subsection \<open>Reverberation times\<close>

text \<open>
  C1. With nine reverb bands and the acoustic constant \<open>24 ln 10\<close>, for every
  dimensions, coefficient set and speed of sound whose volume is at least \<open>MinVolume\<close>,
  the profile has nine entries and band \<open>i\<close> is chosen by the mean absorption of that
  band: the Sabine value when it is at most one half, the Eyring value otherwise. A band
  whose mean absorption is exactly one half takes the Sabine value.
\<close>

theorem computeRT60Secs_sabine_eyring:
  assumes "NumReverbBands g = 9" and "TwentyFourLog10 g = Fin (24 * ln 10)"
    and "js_le MinVolume (roomVolume (sanitizeDimensions dims))" and "i < 9"
  shows "let d = sanitizeDimensions dims; c = sanitizeCoefficients cs;
             speed = (case s of None \<Rightarrow> DefaultSpeedOfSound g | Some v \<Rightarrow> v)
         in length (computeRT60Secs g dims cs s) = 9
          \<and> computeRT60Secs g dims cs s ! i =
              (if js_le (spec_meanAbsorption d c i) (Fin (1 / 2)) then spec_Sabine d c speed i
               else spec_Eyring d c speed i)
          \<and> (spec_meanAbsorption d c i = Fin (1 / 2) \<longrightarrow>
               computeRT60Secs g dims cs s ! i = spec_Sabine d c speed i)"
proof -
  define d where "d = sanitizeDimensions dims"
  define c where "c = sanitizeCoefficients cs"
  define speed where "speed = (case s of None \<Rightarrow> DefaultSpeedOfSound g | Some v \<Rightarrow> v)"
  have "\<not> js_lt (roomVolume (sanitizeDimensions dims)) MinVolume"
    using assms(3) by (rule js_le_not_lt)
  then have all: "computeRT60Secs g dims cs s = map (RT60Band d c (spec_k speed)) [0..<9]"
    using assms(1,2)
    by (simp add: computeRT60Secs_eq spec_k_def d_def c_def speed_def del: upt_Suc)
  have len: "length (computeRT60Secs g dims cs s) = 9"
    by (simp add: all del: upt_Suc)
  have "computeRT60Secs g dims cs s ! i = RT60Band d c (spec_k speed) i"
    using assms(4) by (simp add: all del: upt_Suc)
  then have band: "computeRT60Secs g dims cs s ! i =
      (if js_le (spec_meanAbsorption d c i) (Fin (1 / 2)) then spec_Sabine d c speed i
       else spec_Eyring d c speed i)"
    by (simp only: RT60Band_spec)
  have "spec_meanAbsorption d c i = Fin (1 / 2) \<longrightarrow>
          computeRT60Secs g dims cs s ! i = spec_Sabine d c speed i"
    by (simp add: band)
  with len band show ?thesis
    unfolding Let_def d_def c_def speed_def by blast
qed

text \<open>
  A room of 4 by 3 by 5 metres whose six walls absorb one half in every band: the mean
  absorption of band 0 is exactly one half, and the band holds the Sabine value.
\<close>

theorem computeRT60Secs_sabine_eyring_witness:
  "NumReverbBands Globals = 9 \<and> TwentyFourLog10 Globals = Fin (24 * ln 10)
   \<and> js_le MinVolume (roomVolume (sanitizeDimensions
         (Some [''width'' \<mapsto> Fin 4, ''height'' \<mapsto> Fin 3, ''depth'' \<mapsto> Fin 5])))
   \<and> (0::nat) < 9
   \<and> spec_meanAbsorption
         (sanitizeDimensions (Some [''width'' \<mapsto> Fin 4, ''height'' \<mapsto> Fin 3, ''depth'' \<mapsto> Fin 5]))
         (sanitizeCoefficients (Some (\<lambda>key. Some (Bands (replicate 9 (Fin (1 / 2))))))) 0
       = Fin (1 / 2)
   \<and> computeRT60Secs Globals
         (Some [''width'' \<mapsto> Fin 4, ''height'' \<mapsto> Fin 3, ''depth'' \<mapsto> Fin 5])
         (Some (\<lambda>key. Some (Bands (replicate 9 (Fin (1 / 2)))))) (Some (Fin 343)) ! 0
       = Fin (24 * ln 10 / 343 * 60 / (47 + 4 * (6 / 10000) * 60))"
proof -
  let ?dims = "Some [''width'' \<mapsto> Fin 4, ''height'' \<mapsto> Fin 3, ''depth'' \<mapsto> Fin 5]"
  let ?cs = "Some (\<lambda>key::string. Some (Bands (replicate 9 (Fin (1 / 2)))))"
  have g1: "NumReverbBands Globals = 9" and g2: "TwentyFourLog10 Globals = Fin (24 * ln 10)"
    by (simp_all add: Globals_def)
  have d: "numberAt (sanitizeDimensions ?dims) ''width'' = Fin 4"
    "numberAt (sanitizeDimensions ?dims) ''height'' = Fin 3"
    "numberAt (sanitizeDimensions ?dims) ''depth'' = Fin 5"
    by (simp_all add: numberAt_def sanitizeDimensions_apply)
  have c: "bandAt (sanitizeCoefficients ?cs key) 0 = Fin (1 / 2)" for key
    by (simp add: sanitizeCoefficients_apply)
  have vol: "roomVolume (sanitizeDimensions ?dims) = Fin 60"
    by (simp add: roomVolume_def d ranged_mid)
  have v: "js_le MinVolume (roomVolume (sanitizeDimensions ?dims))"
    by (simp add: vol MinVolume_def)
  have i: "(0::nat) < 9" by simp
  have area: "spec_absorptionArea (sanitizeDimensions ?dims) (sanitizeCoefficients ?cs) 0 = Fin 47"
    by (simp add: spec_absorptionArea_def spec_leftRight_def spec_floorCeiling_def
        spec_frontBack_def d c ranged_mid)
  have mean: "spec_meanAbsorption (sanitizeDimensions ?dims) (sanitizeCoefficients ?cs) 0
      = Fin (1 / 2)"
    by (simp add: spec_meanAbsorption_def area spec_totalArea_def spec_leftRight_def
        spec_floorCeiling_def spec_frontBack_def d ranged_mid)
  have kv: "ranged (24 * ln 10 / 343 * 60) = Fin (24 * ln 10 / 343 * 60)"
    by (rule ranged_mid) (use ln10_bounds in simp_all)
  have sabine: "spec_Sabine (sanitizeDimensions ?dims) (sanitizeCoefficients ?cs) (Fin 343) 0
      = Fin (24 * ln 10 / 343 * 60 / (47 + 4 * (6 / 10000) * 60))"
    using kv
    by (simp add: spec_Sabine_def spec_k_def vol area spec_airTerm_def airAbsorbtionAt_def
        AirAbsorbtionCoefficients_def ranged_mid)
  show ?thesis
    using computeRT60Secs_sabine_eyring [OF g1 g2 v i, of ?cs "Some (Fin 343)"] g1 g2 v mean sabine
    by (simp add: Let_def)
qed

text \<open>
  C3. With nine reverb bands, every dimensions input whose volume is below
  \<open>MinVolume\<close> gives nine zeros, whatever the coefficient set and the speed of sound;
  absent dimensions and dimensions that are all zero are such inputs. At a volume equal
  to \<open>MinVolume\<close> the band loop runs and every band holds what its body computes.
\<close>

theorem computeRT60Secs_small_volume:
  assumes "NumReverbBands g = 9"
  shows "(js_lt (roomVolume (sanitizeDimensions dims)) MinVolume \<longrightarrow>
            computeRT60Secs g dims cs s = replicate 9 (Fin 0))
       \<and> computeRT60Secs g None cs s = replicate 9 (Fin 0)
       \<and> computeRT60Secs g
            (Some [''width'' \<mapsto> Fin 0, ''height'' \<mapsto> Fin 0, ''depth'' \<mapsto> Fin 0]) cs s
           = replicate 9 (Fin 0)
       \<and> (roomVolume (sanitizeDimensions dims') = MinVolume \<longrightarrow>
            computeRT60Secs g dims' cs s =
              map (RT60Band (sanitizeDimensions dims') (sanitizeCoefficients cs)
                     (js_div (TwentyFourLog10 g)
                        (case s of None \<Rightarrow> DefaultSpeedOfSound g | Some v \<Rightarrow> v))) [0..<9])"
proof -
  have a: "js_lt (roomVolume (sanitizeDimensions None)) MinVolume"
    by (simp add: roomVolume_def numberAt_def sanitizeDimensions_apply DimensionTypes_def
        MinVolume_def ranged_zero)
  have b: "js_lt (roomVolume (sanitizeDimensions
             (Some [''width'' \<mapsto> Fin 0, ''height'' \<mapsto> Fin 0, ''depth'' \<mapsto> Fin 0]))) MinVolume"
    by (simp add: roomVolume_def numberAt_def sanitizeDimensions_apply MinVolume_def
        ranged_zero ranged_mid)
  have c: "\<not> js_lt MinVolume MinVolume"
    by (simp add: MinVolume_def)
  show ?thesis
    using assms a b c by (simp add: computeRT60Secs_eq del: upt_Suc)
qed

text \<open>
  A room without a height has volume zero; a room of one centimetre by one centimetre by
  one metre has exactly the minimal volume.
\<close>

theorem computeRT60Secs_small_volume_witness:
  "NumReverbBands Globals = 9
   \<and> js_lt (roomVolume (sanitizeDimensions (Some [''width'' \<mapsto> Fin 2, ''depth'' \<mapsto> Fin 3])))
        MinVolume
   \<and> computeRT60Secs Globals (Some [''width'' \<mapsto> Fin 2, ''depth'' \<mapsto> Fin 3]) None None
       = replicate 9 (Fin 0)
   \<and> roomVolume (sanitizeDimensions
        (Some [''width'' \<mapsto> Fin (1 / 100), ''height'' \<mapsto> Fin (1 / 100), ''depth'' \<mapsto> Fin 1]))
       = MinVolume
   \<and> length (computeRT60Secs Globals
        (Some [''width'' \<mapsto> Fin (1 / 100), ''height'' \<mapsto> Fin (1 / 100), ''depth'' \<mapsto> Fin 1])
        None None) = 9"
proof -
  have g: "NumReverbBands Globals = 9"
    by (simp add: Globals_def)
  have a: "js_lt (roomVolume (sanitizeDimensions
             (Some [''width'' \<mapsto> Fin 2, ''depth'' \<mapsto> Fin 3]))) MinVolume"
    by (simp add: roomVolume_def numberAt_def sanitizeDimensions_apply DimensionTypes_def
        MinVolume_def ranged_zero)
  have b: "roomVolume (sanitizeDimensions
        (Some [''width'' \<mapsto> Fin (1 / 100), ''height'' \<mapsto> Fin (1 / 100), ''depth'' \<mapsto> Fin 1]))
       = MinVolume"
    by (simp add: roomVolume_def numberAt_def sanitizeDimensions_apply MinVolume_def
        ranged_zero ranged_mid)
  show ?thesis
    using computeRT60Secs_small_volume [OF g,
        of "Some [''width'' \<mapsto> Fin 2, ''depth'' \<mapsto> Fin 3]" None None
           "Some [''width'' \<mapsto> Fin (1 / 100), ''height'' \<mapsto> Fin (1 / 100), ''depth'' \<mapsto> Fin 1]"]
      g a b
    by (simp del: upt_Suc)
qed

text \<open>
  C10, amended. With nine reverb bands, for every dimensions input of which an odd number
  of width, height and depth (after the defaults) is negative: the computed volume is NaN
  or at most zero. When it is not NaN it is below \<open>MinVolume\<close> and the profile is nine
  zeros; when it is NaN the guard does not hold and every band of the profile is NaN.
\<close>

theorem computeRT60Secs_odd_negative:
  assumes "NumReverbBands g = 9"
    and "odd (length (filter (\<lambda>x. js_lt x (Fin 0))
           [numberAt (sanitizeDimensions dims) ''width'',
            numberAt (sanitizeDimensions dims) ''height'',
            numberAt (sanitizeDimensions dims) ''depth'']))"
  shows "(roomVolume (sanitizeDimensions dims) \<noteq> NaN \<longrightarrow>
            js_le (roomVolume (sanitizeDimensions dims)) (Fin 0)
          \<and> js_lt (roomVolume (sanitizeDimensions dims)) MinVolume
          \<and> computeRT60Secs g dims cs s = replicate 9 (Fin 0))
       \<and> (roomVolume (sanitizeDimensions dims) = NaN \<longrightarrow>
            computeRT60Secs g dims cs s = replicate 9 NaN)"
proof (intro conjI impI)
  assume num: "roomVolume (sanitizeDimensions dims) \<noteq> NaN"
  show le: "js_le (roomVolume (sanitizeDimensions dims)) (Fin 0)"
    using assms(2) num unfolding roomVolume_def by (rule odd_negative_product)
  then show lt: "js_lt (roomVolume (sanitizeDimensions dims)) MinVolume"
    by (rule js_le_zero_below_MinVolume)
  then show "computeRT60Secs g dims cs s = replicate 9 (Fin 0)"
    using assms(1) by (simp add: computeRT60Secs_eq)
next
  assume nan: "roomVolume (sanitizeDimensions dims) = NaN"
  have "map (RT60Band (sanitizeDimensions dims) c k) [0..<9] = map (\<lambda>i. NaN) [0..<9]" for c k
    using nan by (simp add: RT60Band_NaN del: upt_Suc)
  then have "map (RT60Band (sanitizeDimensions dims) c k) [0..<9] = replicate 9 NaN" for c k
    by (simp add: map_replicate_const del: upt_Suc)
  then show "computeRT60Secs g dims cs s = replicate 9 NaN"
    using assms(1) nan by (simp add: computeRT60Secs_eq del: upt_Suc)
qed

text \<open>
  A room of width \<open>-4\<close>, height 3 and depth 5 has volume \<open>-60\<close> and a profile of zeros.
  With width \<open>-10^200\<close>, height \<open>10^200\<close> and depth 0, all finite, the first product
  overflows to \<open>-Infinity\<close>, the volume is NaN and so is every band.
\<close>

theorem computeRT60Secs_odd_negative_witness:
  "NumReverbBands Globals = 9
   \<and> odd (length (filter (\<lambda>x. js_lt x (Fin 0))
        [numberAt (sanitizeDimensions
           (Some [''width'' \<mapsto> Fin (- 4), ''height'' \<mapsto> Fin 3, ''depth'' \<mapsto> Fin 5])) ''width'',
         numberAt (sanitizeDimensions
           (Some [''width'' \<mapsto> Fin (- 4), ''height'' \<mapsto> Fin 3, ''depth'' \<mapsto> Fin 5])) ''height'',
         numberAt (sanitizeDimensions
           (Some [''width'' \<mapsto> Fin (- 4), ''height'' \<mapsto> Fin 3, ''depth'' \<mapsto> Fin 5])) ''depth'']))
   \<and> roomVolume (sanitizeDimensions
        (Some [''width'' \<mapsto> Fin (- 4), ''height'' \<mapsto> Fin 3, ''depth'' \<mapsto> Fin 5])) = Fin (- 60)
   \<and> computeRT60Secs Globals
        (Some [''width'' \<mapsto> Fin (- 4), ''height'' \<mapsto> Fin 3, ''depth'' \<mapsto> Fin 5]) None None
       = replicate 9 (Fin 0)
   \<and> odd (length (filter (\<lambda>x. js_lt x (Fin 0))
        [numberAt (sanitizeDimensions
           (Some [''width'' \<mapsto> Fin (- (10 ^ 200)), ''height'' \<mapsto> Fin (10 ^ 200),
                  ''depth'' \<mapsto> Fin 0])) ''width'',
         numberAt (sanitizeDimensions
           (Some [''width'' \<mapsto> Fin (- (10 ^ 200)), ''height'' \<mapsto> Fin (10 ^ 200),
                  ''depth'' \<mapsto> Fin 0])) ''height'',
         numberAt (sanitizeDimensions
           (Some [''width'' \<mapsto> Fin (- (10 ^ 200)), ''height'' \<mapsto> Fin (10 ^ 200),
                  ''depth'' \<mapsto> Fin 0])) ''depth'']))
   \<and> roomVolume (sanitizeDimensions
        (Some [''width'' \<mapsto> Fin (- (10 ^ 200)), ''height'' \<mapsto> Fin (10 ^ 200),
               ''depth'' \<mapsto> Fin 0])) = NaN
   \<and> computeRT60Secs Globals
        (Some [''width'' \<mapsto> Fin (- (10 ^ 200)), ''height'' \<mapsto> Fin (10 ^ 200),
               ''depth'' \<mapsto> Fin 0]) None None
       = replicate 9 NaN"
proof -
  let ?room = "Some [''width'' \<mapsto> Fin (- 4), ''height'' \<mapsto> Fin 3, ''depth'' \<mapsto> Fin 5]"
  let ?huge = "Some [''width'' \<mapsto> Fin (- (10 ^ 200)), ''height'' \<mapsto> Fin (10 ^ 200),
                     ''depth'' \<mapsto> Fin 0]"
  have g: "NumReverbBands Globals = 9"
    by (simp add: Globals_def)
  have n1: "odd (length (filter (\<lambda>x. js_lt x (Fin 0))
        [numberAt (sanitizeDimensions ?room) ''width'',
         numberAt (sanitizeDimensions ?room) ''height'',
         numberAt (sanitizeDimensions ?room) ''depth'']))"
    by (simp add: numberAt_def sanitizeDimensions_apply)
  have v1: "roomVolume (sanitizeDimensions ?room) = Fin (- 60)"
    by (simp add: roomVolume_def numberAt_def sanitizeDimensions_apply ranged_mid)
  have n2: "odd (length (filter (\<lambda>x. js_lt x (Fin 0))
        [numberAt (sanitizeDimensions ?huge) ''width'',
         numberAt (sanitizeDimensions ?huge) ''height'',
         numberAt (sanitizeDimensions ?huge) ''depth'']))"
    by (simp add: numberAt_def sanitizeDimensions_apply)
  have over: "ranged (- (10 ^ 200 * 10 ^ 200)) = NInf"
    by (simp add: ranged_def overflowThreshold_def)
  have v2: "roomVolume (sanitizeDimensions ?huge) = NaN"
    using over by (simp add: roomVolume_def numberAt_def sanitizeDimensions_apply)
  have z: "computeRT60Secs Globals ?room None None = replicate 9 (Fin 0)"
    using computeRT60Secs_odd_negative [OF g n1, of None None] v1 by simp
  have "roomVolume (sanitizeDimensions ?huge) = NaN \<longrightarrow>
          computeRT60Secs Globals ?huge None None = replicate 9 NaN"
    using computeRT60Secs_odd_negative [OF g n2, of None None] by (rule conjunct2)
  then have nn: "computeRT60Secs Globals ?huge None None = replicate 9 NaN"
    using v2 by (rule mp)
  from g n1 v1 z n2 v2 nn show ?thesis
    by (intro conjI)
qed

text \<open>
  The profile is not always zero. Width \<open>-1\<close>, height \<open>Infinity\<close> and depth 0 have
  exactly one negative member; the volume is NaN, which is not below \<open>MinVolume\<close>, and
  every band of the profile is NaN.
\<close>

theorem computeRT60Secs_negative_nonfinite:
  "computeRT60Secs Globals
      (Some [''width'' \<mapsto> Fin (- 1), ''height'' \<mapsto> PInf, ''depth'' \<mapsto> Fin 0]) None None
     = replicate 9 NaN
   \<and> computeRT60Secs Globals
      (Some [''width'' \<mapsto> Fin (- 1), ''height'' \<mapsto> PInf, ''depth'' \<mapsto> Fin 0]) None None
     \<noteq> replicate 9 (Fin 0)"
  by (simp add: computeRT60Secs_eq roomVolume_def numberAt_def sanitizeDimensions_apply
      MinVolume_def Globals_def RT60Band_def Let_def numeral_eq_Suc)


subsection \<open>Reflection coefficients\<close>





subsection \<open>The resolver\<close>

text \<open>
  C2, amended. For every assignment with the key \<open>walls\<close>, the call writes the value of
  \<open>walls\<close> into \<open>left\<close>, \<open>right\<close>, \<open>front\<close> and \<open>back\<close> of the caller's own object and
  leaves its other keys as they were. The object can still be reused: a second call on
  the object as the first call left it returns the same coefficient set, logs the same
  texts and leaves the object as it is.
\<close>

theorem getCoefficientsFromMaterials_writes_side_walls:
  assumes "m ''walls'' = Some v"
  shows "materialsAfter (getCoefficientsFromMaterials (Some m)) =
           m(''left'' \<mapsto> v, ''right'' \<mapsto> v, ''front'' \<mapsto> v, ''back'' \<mapsto> v)
       \<and> getCoefficientsFromMaterials (Some (materialsAfter (getCoefficientsFromMaterials (Some m))))
           = getCoefficientsFromMaterials (Some m)"
proof -
  have a: "materialsAfter (getCoefficientsFromMaterials (Some m)) = expandWalls m"
    by (simp add: materialsAfter_eq)
  have b: "getCoefficientsFromMaterials (Some (expandWalls m)) =
             getCoefficientsFromMaterials (Some m)"
    by (simp add: getCoefficientsFromMaterials_def expandWalls_idem)
  show ?thesis
    using assms a b by (simp add: expandWalls_eq)
qed

theorem getCoefficientsFromMaterials_writes_side_walls_witness:
  "[''walls'' \<mapsto> ''BrickBare'', ''left'' \<mapsto> ''Marble''] ''walls'' = Some ''BrickBare''
   \<and> materialsAfter (getCoefficientsFromMaterials
        (Some [''walls'' \<mapsto> ''BrickBare'', ''left'' \<mapsto> ''Marble''])) =
       [''walls'' \<mapsto> ''BrickBare'', ''left'' \<mapsto> ''BrickBare'', ''right'' \<mapsto> ''BrickBare'',
        ''front'' \<mapsto> ''BrickBare'', ''back'' \<mapsto> ''BrickBare'']"
  using getCoefficientsFromMaterials_writes_side_walls
    [of "[''walls'' \<mapsto> ''BrickBare'', ''left'' \<mapsto> ''Marble'']" "''BrickBare''"]
  by (simp add: fun_upd_twist)

text \<open>
  The object is not left as it was: an assignment with the single key \<open>walls\<close> has a key
  \<open>left\<close> after the call.
\<close>

theorem getCoefficientsFromMaterials_assignment_changed:
  "materialsAfter (getCoefficientsFromMaterials (Some [''walls'' \<mapsto> ''BrickBare'']))
     \<noteq> [''walls'' \<mapsto> ''BrickBare'']"
proof
  assume "materialsAfter (getCoefficientsFromMaterials (Some [''walls'' \<mapsto> ''BrickBare'']))
     = [''walls'' \<mapsto> ''BrickBare'']"
  then have "materialsAfter (getCoefficientsFromMaterials (Some [''walls'' \<mapsto> ''BrickBare'']))
       ''left'' = [''walls'' \<mapsto> ''BrickBare''] ''left''"
    by (rule arg_cong)
  then show False
    by (simp add: materialsAfter_eq expandWalls_eq)
qed

text \<open>
  C5. The claim asks for a nine-band vector on each of the six walls, whatever the
  assignment. The name \<open>toString\<close> is not a material of the table, yet the test
  \<open>in\<close> accepts it as a member inherited from \<open>Object.prototype\<close>: the left wall of the
  returned set then holds that member and not a vector.
\<close>

theorem getCoefficientsFromMaterials_inherited_member:
  "MaterialLibrary ''toString'' = None \<and>
   coefficientsOf (getCoefficientsFromMaterials (Some [''left'' \<mapsto> ''toString''])) ''left''
     = Some (Inherited ''toString'')"
  by (simp add: coefficientsOf_apply expandWalls_eq WallTypes_def MaterialCoefficients_def
      MaterialLibrary_def MaterialTable_def ObjectPrototypeKeys_def)

text \<open>
  C7. The claim asks that a material name outside the table keeps the wall's default and
  is reported. The name \<open>constructor\<close> is outside the table; given for the floor it is
  accepted as an inherited member, the floor does not keep its default, and the log holds
  the five texts of the walls left out and none for the floor.
\<close>

theorem getCoefficientsFromMaterials_inherited_unreported:
  "MaterialLibrary ''constructor'' = None \<and>
   coefficientsOf (getCoefficientsFromMaterials (Some [''floor'' \<mapsto> ''constructor''])) ''floor''
     = Some (Inherited ''constructor'') \<and>
   logged (getCoefficientsFromMaterials (Some [''floor'' \<mapsto> ''constructor'']))
     = map notDefinedMessage [''left'', ''right'', ''front'', ''back'', ''ceiling'']"
  by (simp add: coefficientsOf_apply logged_eq wallMessages_def expandWalls_eq WallTypes_def
      MaterialCoefficients_def MaterialLibrary_def MaterialTable_def ObjectPrototypeKeys_def)

text \<open>
  C6. For every assignment whose key \<open>walls\<close> names a material of the table, the four
  side walls of the result hold that material's vector, whatever the assignment gives for
  them. Ceiling and floor are as the assignment without \<open>walls\<close> resolves them: the
  vector of their own material, or the default.
\<close>

theorem getCoefficientsFromMaterials_walls_alias:
  assumes "m ''walls'' = Some name" and "MaterialLibrary name = Some v"
  shows "coefficientsOf (getCoefficientsFromMaterials (Some m)) ''left'' = Some v
       \<and> coefficientsOf (getCoefficientsFromMaterials (Some m)) ''right'' = Some v
       \<and> coefficientsOf (getCoefficientsFromMaterials (Some m)) ''front'' = Some v
       \<and> coefficientsOf (getCoefficientsFromMaterials (Some m)) ''back'' = Some v
       \<and> coefficientsOf (getCoefficientsFromMaterials (Some m)) ''ceiling''
           = coefficientsOf (getCoefficientsFromMaterials (Some (m(''walls'' := None)))) ''ceiling''
       \<and> coefficientsOf (getCoefficientsFromMaterials (Some m)) ''floor''
           = coefficientsOf (getCoefficientsFromMaterials (Some (m(''walls'' := None)))) ''floor''
       \<and> coefficientsOf (getCoefficientsFromMaterials (Some m)) ''ceiling''
           = (case m ''ceiling'' of
                None \<Rightarrow> defaultCoefficients ''ceiling''
              | Some n \<Rightarrow>
                  (case MaterialCoefficients n of
                     Some u \<Rightarrow> Some u
                   | None \<Rightarrow> defaultCoefficients ''ceiling''))
       \<and> coefficientsOf (getCoefficientsFromMaterials (Some m)) ''floor''
           = (case m ''floor'' of
                None \<Rightarrow> defaultCoefficients ''floor''
              | Some n \<Rightarrow>
                  (case MaterialCoefficients n of
                     Some u \<Rightarrow> Some u
                   | None \<Rightarrow> defaultCoefficients ''floor''))"
  using assms
  by (simp add: coefficientsOf_apply expandWalls_eq MaterialCoefficients_own
      defaultCoefficients_wall WallTypes_def split: option.splits)

theorem getCoefficientsFromMaterials_walls_alias_witness:
  "[''walls'' \<mapsto> ''BrickBare'', ''left'' \<mapsto> ''Marble'', ''ceiling'' \<mapsto> ''Uniform''] ''walls''
     = Some ''BrickBare''
   \<and> MaterialLibrary ''BrickBare'' =
        Some (Bands (map Fin [30 / 1000, 30 / 1000, 30 / 1000, 30 / 1000, 30 / 1000, 40 / 1000,
                              50 / 1000, 70 / 1000, 140 / 1000]))
   \<and> coefficientsOf (getCoefficientsFromMaterials
        (Some [''walls'' \<mapsto> ''BrickBare'', ''left'' \<mapsto> ''Marble'', ''ceiling'' \<mapsto> ''Uniform'']))
        ''left'' = MaterialLibrary ''BrickBare''
   \<and> coefficientsOf (getCoefficientsFromMaterials
        (Some [''walls'' \<mapsto> ''BrickBare'', ''left'' \<mapsto> ''Marble'', ''ceiling'' \<mapsto> ''Uniform'']))
        ''ceiling'' = MaterialLibrary ''Uniform''
   \<and> coefficientsOf (getCoefficientsFromMaterials
        (Some [''walls'' \<mapsto> ''BrickBare'', ''left'' \<mapsto> ''Marble'', ''ceiling'' \<mapsto> ''Uniform'']))
        ''floor'' = MaterialLibrary ''Transparent''"
proof -
  let ?m = "[''walls'' \<mapsto> ''BrickBare'', ''left'' \<mapsto> ''Marble'', ''ceiling'' \<mapsto> ''Uniform'']"
  have w: "?m ''walls'' = Some ''BrickBare''"
    by simp
  have b: "MaterialLibrary ''BrickBare'' =
        Some (Bands (map Fin [30 / 1000, 30 / 1000, 30 / 1000, 30 / 1000, 30 / 1000, 40 / 1000,
                              50 / 1000, 70 / 1000, 140 / 1000]))"
    by (simp add: MaterialLibrary_def MaterialTable_def)
  have u: "MaterialCoefficients ''Uniform'' = MaterialLibrary ''Uniform''"
    by (simp add: MaterialCoefficients_def MaterialLibrary_def MaterialTable_def)
  have t: "defaultCoefficients ''floor'' = MaterialLibrary ''Transparent''"
    by (simp add: defaultCoefficients_def DefaultMaterials_def MaterialCoefficients_def
        MaterialLibrary_def MaterialTable_def)
  have u': "MaterialLibrary ''Uniform'' \<noteq> None"
    by (simp add: MaterialLibrary_def MaterialTable_def)
  show ?thesis
    using getCoefficientsFromMaterials_walls_alias [of ?m "''BrickBare''", OF w b] w b u t u'
    by (auto split: option.splits)
qed


subsection \<open>The sanitizers\<close>

text \<open>
  C8. For every coefficient set, absent and partial ones included, sanitizing what
  \<open>sanitizeCoefficients\<close> returned gives that result again.
\<close>

theorem sanitizeCoefficients_idempotent:
  "sanitizeCoefficients (Some (sanitizeCoefficients cs)) = sanitizeCoefficients cs"
  by (rule ext) (simp add: sanitizeCoefficients_apply split: option.splits)

theorem sanitizeCoefficients_idempotent_witness:
  "sanitizeCoefficients (Some (sanitizeCoefficients (Some [''left'' \<mapsto> Bands [Fin 7]])))
     = sanitizeCoefficients (Some [''left'' \<mapsto> Bands [Fin 7]])"
  by (rule sanitizeCoefficients_idempotent)

text \<open>
  C9. Neither sanitizer validates or replaces what it is given: a key present in the
  input keeps its value, whatever that value is, and a key absent from the input gets the
  default when it is a wall (an axis) and stays absent otherwise.
\<close>

theorem sanitizers_keep_entries:
  assumes "c k = Some v" and "c a = None" and "d j = Some x" and "d b = None"
  shows "sanitizeCoefficients (Some c) k = Some v
       \<and> sanitizeCoefficients (Some c) a =
           (if a \<in> set WallTypes then defaultCoefficients a else None)
       \<and> sanitizeDimensions (Some d) j = Some x
       \<and> sanitizeDimensions (Some d) b =
           (if b \<in> set DimensionTypes then DefaultDimensions b else None)"
  using assms
  by (simp add: sanitizeCoefficients_apply sanitizeDimensions_apply defaultCoefficients_wall
      DefaultDimensions_axis)

text \<open>
  A coefficient set whose left wall has a single band of value 7, and dimensions with a
  width of \<open>-3\<close> only.
\<close>

theorem sanitizers_keep_entries_witness:
  "[''left'' \<mapsto> Bands [Fin 7]] ''left'' = Some (Bands [Fin 7])
   \<and> [''left'' \<mapsto> Bands [Fin 7]] ''right'' = None
   \<and> [''width'' \<mapsto> Fin (- 3)] ''width'' = Some (Fin (- 3))
   \<and> [''width'' \<mapsto> Fin (- 3)] ''depth'' = None
   \<and> sanitizeCoefficients (Some [''left'' \<mapsto> Bands [Fin 7]]) ''left'' = Some (Bands [Fin 7])
   \<and> sanitizeCoefficients (Some [''left'' \<mapsto> Bands [Fin 7]]) ''right''
       = Some (Bands (replicate 9 (Fin 1)))
   \<and> sanitizeDimensions (Some [''width'' \<mapsto> Fin (- 3)]) ''width'' = Some (Fin (- 3))
   \<and> sanitizeDimensions (Some [''width'' \<mapsto> Fin (- 3)]) ''depth'' = Some (Fin 0)"
proof -
  have a: "[''left'' \<mapsto> Bands [Fin 7]] ''left'' = Some (Bands [Fin 7])"
    and b: "[''left'' \<mapsto> Bands [Fin 7]] ''right'' = None"
    and c: "[''width'' \<mapsto> Fin (- 3)] ''width'' = Some (Fin (- 3))"
    and d: "[''width'' \<mapsto> Fin (- 3)] ''depth'' = None"
    by simp_all
  have e1: "(if ''right'' \<in> set WallTypes then defaultCoefficients ''right'' else None)
              = Some (Bands (replicate 9 (Fin 1)))"
    by (simp add: WallTypes_def defaultCoefficients_wall)
  have e2: "(if ''depth'' \<in> set DimensionTypes then DefaultDimensions ''depth'' else None)
              = Some (Fin 0)"
    by (simp add: DimensionTypes_def DefaultDimensions_def)
  from sanitizers_keep_entries [OF a b c d]
  have 1: "sanitizeCoefficients (Some [''left'' \<mapsto> Bands [Fin 7]]) ''left''
             = Some (Bands [Fin 7])"
    and 2: "sanitizeCoefficients (Some [''left'' \<mapsto> Bands [Fin 7]]) ''right''
              = (if ''right'' \<in> set WallTypes then defaultCoefficients ''right'' else None)"
    and 3: "sanitizeDimensions (Some [''width'' \<mapsto> Fin (- 3)]) ''width'' = Some (Fin (- 3))"
    and 4: "sanitizeDimensions (Some [''width'' \<mapsto> Fin (- 3)]) ''depth''
              = (if ''depth'' \<in> set DimensionTypes then DefaultDimensions ''depth'' else None)"
    by blast+
  show ?thesis
    using a b c d 1 trans [OF 2 e1] 3 trans [OF 4 e2] by blast
qed

end
